theory Spec2Isabelle
  imports Main "HOL-Library.Word" "HOL-Library.List_Lexorder"
begin

section \<open>Values crossing the adapter boundary\<close>

text \<open>
  The adapters of package \<open>rsm\<close> wrap a user-supplied state machine. The user object is
  reached only through its interface, so it is modelled as a table of methods acting on an
  abstract world \<open>'m\<close>: the wrapped machine's own state together with the state of every
  collaborator it may touch (the writer, the reader, the file collection). Writers,
  readers, file collections and stop channels are passed as handles into that world.
  A method of the wrapped machine is assumed to return; a panic raised inside user code
  is outside the model.
\<close>

type_synonym bytes = "8 word list"
type_synonym uint64 = "64 word"

text \<open>Go's \<open>interface{}\<close>: the nil interface, or some dynamic value (kept opaque).\<close>

datatype any = nil | Dyn nat

text \<open>
  Go's \<open>error\<close>; a nil error is \<open>None\<close> of \<open>error option\<close>.
  Modelled from the spec: \<open>sm.ErrNotImplemented\<close> is declared in package
  \<open>statemachine\<close>; it is the stable "not implemented" error, a value of its own that
  the wrapped machine may return as well.
\<close>

datatype error = ErrNotImplemented | ErrOther string

text \<open>A Go panic carries a string or an error value.\<close>

datatype panic = Panic string | PanicErr error

type_synonym Writer = nat
type_synonym Reader = nat
type_synonym ISnapshotFileCollection = nat
type_synonym SnapshotFile = nat
type_synonym stopc = nat
type_synonym IFS = nat

text \<open>
  Modelled from the spec: \<open>sm.Result\<close> and \<open>sm.Entry\<close> are declared in package
  \<open>statemachine\<close>. The adapter reads \<open>Cmd\<close> and writes \<open>Result\<close> of an entry.
\<close>

record sm_Result =
  Value :: uint64
  Data :: bytes

record Entry =
  Index :: uint64
  Cmd :: bytes
  Result :: sm_Result

text \<open>\<open>pb.StateMachineType\<close>, with the three discriminants the adapters return.\<close>

datatype StateMachineType =
  pb_RegularStateMachine | pb_ConcurrentStateMachine | pb_OnDiskStateMachine

section \<open>The wrapped machines\<close>

text \<open>
  The optional capabilities \<open>sm.IHash\<close> and \<open>sm.IExtended\<close>. A type assertion
  \<open>s.(sm.IHash)\<close> succeeds exactly when the dynamic type of \<open>s\<close> has the method, so
  each wrapped machine carries the method as an option.
\<close>

type_synonym 'm IHash = "'m \<Rightarrow> uint64 \<times> error option \<times> 'm"
type_synonym 'm IExtended = "bytes \<Rightarrow> 'm \<Rightarrow> bytes \<times> error option \<times> 'm"
type_synonym 'm ITestFS = "IFS \<Rightarrow> 'm \<Rightarrow> 'm"

record 'm sm_IStateMachine =
  sm_Update :: "bytes \<Rightarrow> 'm \<Rightarrow> sm_Result \<times> error option \<times> 'm"
  sm_Lookup :: "any \<Rightarrow> 'm \<Rightarrow> any \<times> error option \<times> 'm"
  sm_SaveSnapshot :: "Writer \<Rightarrow> ISnapshotFileCollection \<Rightarrow> stopc \<Rightarrow> 'm \<Rightarrow> error option \<times> 'm"
  sm_RecoverFromSnapshot :: "Reader \<Rightarrow> SnapshotFile list \<Rightarrow> stopc \<Rightarrow> 'm \<Rightarrow> error option \<times> 'm"
  sm_Close :: "'m \<Rightarrow> error option \<times> 'm"
  sm_IHash :: "'m IHash option"
  sm_IExtended :: "'m IExtended option"

record 'm sm_IConcurrentStateMachine =
  csm_Update :: "Entry list \<Rightarrow> 'm \<Rightarrow> Entry list \<times> error option \<times> 'm"
  csm_Lookup :: "any \<Rightarrow> 'm \<Rightarrow> any \<times> error option \<times> 'm"
  csm_PrepareSnapshot :: "'m \<Rightarrow> any \<times> error option \<times> 'm"
  csm_SaveSnapshot ::
    "any \<Rightarrow> Writer \<Rightarrow> ISnapshotFileCollection \<Rightarrow> stopc \<Rightarrow> 'm \<Rightarrow> error option \<times> 'm"
  csm_RecoverFromSnapshot ::
    "Reader \<Rightarrow> SnapshotFile list \<Rightarrow> stopc \<Rightarrow> 'm \<Rightarrow> error option \<times> 'm"
  csm_Close :: "'m \<Rightarrow> error option \<times> 'm"
  csm_IHash :: "'m IHash option"
  csm_IExtended :: "'m IExtended option"

record 'm sm_IOnDiskStateMachine =
  od_Open :: "stopc \<Rightarrow> 'm \<Rightarrow> uint64 \<times> error option \<times> 'm"
  od_Update :: "Entry list \<Rightarrow> 'm \<Rightarrow> Entry list \<times> error option \<times> 'm"
  od_Lookup :: "any \<Rightarrow> 'm \<Rightarrow> any \<times> error option \<times> 'm"
  od_Sync :: "'m \<Rightarrow> error option \<times> 'm"
  od_PrepareSnapshot :: "'m \<Rightarrow> any \<times> error option \<times> 'm"
  od_SaveSnapshot :: "any \<Rightarrow> Writer \<Rightarrow> stopc \<Rightarrow> 'm \<Rightarrow> error option \<times> 'm"
  od_RecoverFromSnapshot :: "Reader \<Rightarrow> stopc \<Rightarrow> 'm \<Rightarrow> error option \<times> 'm"
  od_Close :: "'m \<Rightarrow> error option \<times> 'm"
  od_IHash :: "'m IHash option"
  od_IExtended :: "'m IExtended option"
  od_ITestFS :: "'m ITestFS option"

section \<open>RegularStateMachine\<close>

record 'm RegularStateMachine =
  r_sm :: "'m sm_IStateMachine"
  r_h :: "'m IHash option"
  r_na :: "'m IExtended option"

definition NewRegularStateMachine :: "'m sm_IStateMachine \<Rightarrow> 'm RegularStateMachine" where
  "NewRegularStateMachine s =
     (let r = \<lparr>r_sm = s, r_h = None, r_na = None\<rparr>;
          r = (case sm_IHash s of Some h \<Rightarrow> r\<lparr>r_h := Some h\<rparr> | None \<Rightarrow> r);
          r = (case sm_IExtended s of Some na \<Rightarrow> r\<lparr>r_na := Some na\<rparr> | None \<Rightarrow> r)
      in r)"

definition RegularStateMachine_Open ::
  "'m RegularStateMachine \<Rightarrow> stopc \<Rightarrow> 'm \<Rightarrow> panic + (uint64 \<times> error option \<times> 'm)" where
  "RegularStateMachine_Open s stop m = Inl (Panic ''Open() called on RegularStateMachine'')"

text \<open>
  \<open>Update\<close> writes the result into \<open>entries[0]\<close> in place and returns the same slice;
  the model returns the updated sequence.
\<close>

definition RegularStateMachine_Update ::
  "'m RegularStateMachine \<Rightarrow> Entry list \<Rightarrow> 'm \<Rightarrow> panic + (Entry list \<times> error option \<times> 'm)" where
  "RegularStateMachine_Update s entries m =
     (if length entries \<noteq> 1 then Inl (Panic ''len(entries) != 1'')
      else (case sm_Update (r_sm s) (Cmd (entries ! 0)) m of
              (res, err, m') \<Rightarrow> Inr (entries[0 := (entries ! 0)\<lparr>Result := res\<rparr>], err, m')))"

definition RegularStateMachine_Lookup ::
  "'m RegularStateMachine \<Rightarrow> any \<Rightarrow> 'm \<Rightarrow> panic + (any \<times> error option \<times> 'm)" where
  "RegularStateMachine_Lookup s query m = Inr (sm_Lookup (r_sm s) query m)"

text \<open>The nil byte slice returned beside \<open>ErrNotImplemented\<close> is the empty sequence.\<close>

definition RegularStateMachine_NALookup ::
  "'m RegularStateMachine \<Rightarrow> bytes \<Rightarrow> 'm \<Rightarrow> panic + (bytes \<times> error option \<times> 'm)" where
  "RegularStateMachine_NALookup s query m =
     (case r_na s of
        None \<Rightarrow> Inr ([], Some ErrNotImplemented, m)
      | Some na \<Rightarrow> Inr (na query m))"

definition RegularStateMachine_Sync ::
  "'m RegularStateMachine \<Rightarrow> 'm \<Rightarrow> panic + (error option \<times> 'm)" where
  "RegularStateMachine_Sync s m = Inl (Panic ''Sync called on RegularStateMachine'')"

definition RegularStateMachine_Prepare ::
  "'m RegularStateMachine \<Rightarrow> 'm \<Rightarrow> panic + (any \<times> error option \<times> 'm)" where
  "RegularStateMachine_Prepare s m =
     Inl (Panic ''PrepareSnapshot called on RegularStateMachine'')"

definition RegularStateMachine_Save ::
  "'m RegularStateMachine \<Rightarrow> any \<Rightarrow> Writer \<Rightarrow> ISnapshotFileCollection \<Rightarrow> stopc \<Rightarrow> 'm
     \<Rightarrow> panic + (error option \<times> 'm)" where
  "RegularStateMachine_Save s ctx w fc stop m =
     (if ctx \<noteq> nil then Inl (Panic ''ctx is not nil'')
      else Inr (sm_SaveSnapshot (r_sm s) w fc stop m))"

definition RegularStateMachine_Recover ::
  "'m RegularStateMachine \<Rightarrow> Reader \<Rightarrow> SnapshotFile list \<Rightarrow> stopc \<Rightarrow> 'm
     \<Rightarrow> panic + (error option \<times> 'm)" where
  "RegularStateMachine_Recover s r fs stop m =
     Inr (sm_RecoverFromSnapshot (r_sm s) r fs stop m)"

definition RegularStateMachine_Close ::
  "'m RegularStateMachine \<Rightarrow> 'm \<Rightarrow> panic + (error option \<times> 'm)" where
  "RegularStateMachine_Close s m = Inr (sm_Close (r_sm s) m)"

definition RegularStateMachine_GetHash ::
  "'m RegularStateMachine \<Rightarrow> 'm \<Rightarrow> panic + (uint64 \<times> error option \<times> 'm)" where
  "RegularStateMachine_GetHash s m =
     (case r_h s of
        None \<Rightarrow> Inr (0, Some ErrNotImplemented, m)
      | Some h \<Rightarrow> Inr (h m))"

definition RegularStateMachine_Concurrent :: "'m RegularStateMachine \<Rightarrow> bool" where
  "RegularStateMachine_Concurrent s = False"

definition RegularStateMachine_OnDisk :: "'m RegularStateMachine \<Rightarrow> bool" where
  "RegularStateMachine_OnDisk s = False"

definition RegularStateMachine_Type :: "'m RegularStateMachine \<Rightarrow> StateMachineType" where
  "RegularStateMachine_Type s = pb_RegularStateMachine"

section \<open>ConcurrentStateMachine\<close>

record 'm ConcurrentStateMachine =
  c_sm :: "'m sm_IConcurrentStateMachine"
  c_h :: "'m IHash option"
  c_na :: "'m IExtended option"

definition NewConcurrentStateMachine ::
  "'m sm_IConcurrentStateMachine \<Rightarrow> 'm ConcurrentStateMachine" where
  "NewConcurrentStateMachine s =
     (let r = \<lparr>c_sm = s, c_h = None, c_na = None\<rparr>;
          r = (case csm_IHash s of Some h \<Rightarrow> r\<lparr>c_h := Some h\<rparr> | None \<Rightarrow> r);
          r = (case csm_IExtended s of Some na \<Rightarrow> r\<lparr>c_na := Some na\<rparr> | None \<Rightarrow> r)
      in r)"

definition ConcurrentStateMachine_Open ::
  "'m ConcurrentStateMachine \<Rightarrow> stopc \<Rightarrow> 'm \<Rightarrow> panic + (uint64 \<times> error option \<times> 'm)" where
  "ConcurrentStateMachine_Open s stop m = Inl (Panic ''Open() called on RegularStateMachine'')"

definition ConcurrentStateMachine_Update ::
  "'m ConcurrentStateMachine \<Rightarrow> Entry list \<Rightarrow> 'm
     \<Rightarrow> panic + (Entry list \<times> error option \<times> 'm)" where
  "ConcurrentStateMachine_Update s entries m = Inr (csm_Update (c_sm s) entries m)"

definition ConcurrentStateMachine_Lookup ::
  "'m ConcurrentStateMachine \<Rightarrow> any \<Rightarrow> 'm \<Rightarrow> panic + (any \<times> error option \<times> 'm)" where
  "ConcurrentStateMachine_Lookup s query m = Inr (csm_Lookup (c_sm s) query m)"

definition ConcurrentStateMachine_NALookup ::
  "'m ConcurrentStateMachine \<Rightarrow> bytes \<Rightarrow> 'm \<Rightarrow> panic + (bytes \<times> error option \<times> 'm)" where
  "ConcurrentStateMachine_NALookup s query m =
     (case c_na s of
        None \<Rightarrow> Inr ([], Some ErrNotImplemented, m)
      | Some na \<Rightarrow> Inr (na query m))"

definition ConcurrentStateMachine_Sync ::
  "'m ConcurrentStateMachine \<Rightarrow> 'm \<Rightarrow> panic + (error option \<times> 'm)" where
  "ConcurrentStateMachine_Sync s m = Inl (Panic ''Sync called on ConcurrentStateMachine'')"

definition ConcurrentStateMachine_Prepare ::
  "'m ConcurrentStateMachine \<Rightarrow> 'm \<Rightarrow> panic + (any \<times> error option \<times> 'm)" where
  "ConcurrentStateMachine_Prepare s m = Inr (csm_PrepareSnapshot (c_sm s) m)"

definition ConcurrentStateMachine_Save ::
  "'m ConcurrentStateMachine \<Rightarrow> any \<Rightarrow> Writer \<Rightarrow> ISnapshotFileCollection \<Rightarrow> stopc \<Rightarrow> 'm
     \<Rightarrow> panic + (error option \<times> 'm)" where
  "ConcurrentStateMachine_Save s ctx w fc stop m =
     Inr (csm_SaveSnapshot (c_sm s) ctx w fc stop m)"

definition ConcurrentStateMachine_Recover ::
  "'m ConcurrentStateMachine \<Rightarrow> Reader \<Rightarrow> SnapshotFile list \<Rightarrow> stopc \<Rightarrow> 'm
     \<Rightarrow> panic + (error option \<times> 'm)" where
  "ConcurrentStateMachine_Recover s r fs stop m =
     Inr (csm_RecoverFromSnapshot (c_sm s) r fs stop m)"

definition ConcurrentStateMachine_Close ::
  "'m ConcurrentStateMachine \<Rightarrow> 'm \<Rightarrow> panic + (error option \<times> 'm)" where
  "ConcurrentStateMachine_Close s m = Inr (csm_Close (c_sm s) m)"

definition ConcurrentStateMachine_GetHash ::
  "'m ConcurrentStateMachine \<Rightarrow> 'm \<Rightarrow> panic + (uint64 \<times> error option \<times> 'm)" where
  "ConcurrentStateMachine_GetHash s m =
     (case c_h s of
        None \<Rightarrow> Inr (0, Some ErrNotImplemented, m)
      | Some h \<Rightarrow> Inr (h m))"

definition ConcurrentStateMachine_Concurrent :: "'m ConcurrentStateMachine \<Rightarrow> bool" where
  "ConcurrentStateMachine_Concurrent s = True"

definition ConcurrentStateMachine_OnDisk :: "'m ConcurrentStateMachine \<Rightarrow> bool" where
  "ConcurrentStateMachine_OnDisk s = False"

definition ConcurrentStateMachine_Type :: "'m ConcurrentStateMachine \<Rightarrow> StateMachineType" where
  "ConcurrentStateMachine_Type s = pb_ConcurrentStateMachine"

section \<open>OnDiskStateMachine\<close>

record 'm OnDiskStateMachine =
  d_sm :: "'m sm_IOnDiskStateMachine"
  d_h :: "'m IHash option"
  d_na :: "'m IExtended option"
  opened :: bool

definition NewOnDiskStateMachine ::
  "'m sm_IOnDiskStateMachine \<Rightarrow> 'm OnDiskStateMachine" where
  "NewOnDiskStateMachine s =
     (let r = \<lparr>d_sm = s, d_h = None, d_na = None, opened = False\<rparr>;
          r = (case od_IHash s of Some h \<Rightarrow> r\<lparr>d_h := Some h\<rparr> | None \<Rightarrow> r);
          r = (case od_IExtended s of Some na \<Rightarrow> r\<lparr>d_na := Some na\<rparr> | None \<Rightarrow> r)
      in r)"

text \<open>\<open>SetTestFS\<close> leaves the adapter as it is; the log line it prints is not modelled.\<close>

definition OnDiskStateMachine_SetTestFS :: "'m OnDiskStateMachine \<Rightarrow> IFS \<Rightarrow> 'm \<Rightarrow> 'm" where
  "OnDiskStateMachine_SetTestFS s fs m =
     (case od_ITestFS (d_sm s) of Some tfs \<Rightarrow> tfs fs m | None \<Rightarrow> m)"

text \<open>
  \<open>Open\<close> is the one method that writes a field of its receiver, so it returns the
  adapter as well. The flag is set before the wrapped machine is asked to open.
\<close>

definition OnDiskStateMachine_Open ::
  "'m OnDiskStateMachine \<Rightarrow> stopc \<Rightarrow> 'm
     \<Rightarrow> panic + (uint64 \<times> error option \<times> 'm OnDiskStateMachine \<times> 'm)" where
  "OnDiskStateMachine_Open s stop m =
     (if opened s then Inl (Panic ''Open called more than once on OnDiskStateMachine'')
      else (let s' = s\<lparr>opened := True\<rparr> in
            case od_Open (d_sm s') stop m of
              (applied, err, m') \<Rightarrow>
                if err \<noteq> None then Inr (0, err, s', m') else Inr (applied, None, s', m')))"

definition OnDiskStateMachine_Update ::
  "'m OnDiskStateMachine \<Rightarrow> Entry list \<Rightarrow> 'm
     \<Rightarrow> panic + (Entry list \<times> error option \<times> 'm)" where
  "OnDiskStateMachine_Update s entries m =
     (if \<not> opened s then Inl (Panic ''Update called before Open'')
      else Inr (od_Update (d_sm s) entries m))"

definition OnDiskStateMachine_Lookup ::
  "'m OnDiskStateMachine \<Rightarrow> any \<Rightarrow> 'm \<Rightarrow> panic + (any \<times> error option \<times> 'm)" where
  "OnDiskStateMachine_Lookup s query m =
     (if \<not> opened s then Inl (Panic ''Lookup called when not opened'')
      else Inr (od_Lookup (d_sm s) query m))"

definition OnDiskStateMachine_NALookup ::
  "'m OnDiskStateMachine \<Rightarrow> bytes \<Rightarrow> 'm \<Rightarrow> panic + (bytes \<times> error option \<times> 'm)" where
  "OnDiskStateMachine_NALookup s query m =
     (case d_na s of
        None \<Rightarrow> Inr ([], Some ErrNotImplemented, m)
      | Some na \<Rightarrow> Inr (na query m))"

definition OnDiskStateMachine_Sync ::
  "'m OnDiskStateMachine \<Rightarrow> 'm \<Rightarrow> panic + (error option \<times> 'm)" where
  "OnDiskStateMachine_Sync s m =
     (if \<not> opened s then Inl (Panic ''Sync called when not opened'')
      else Inr (od_Sync (d_sm s) m))"

definition OnDiskStateMachine_Prepare ::
  "'m OnDiskStateMachine \<Rightarrow> 'm \<Rightarrow> panic + (any \<times> error option \<times> 'm)" where
  "OnDiskStateMachine_Prepare s m =
     (if \<not> opened s then Inl (Panic ''PrepareSnapshot called when not opened'')
      else Inr (od_PrepareSnapshot (d_sm s) m))"

definition OnDiskStateMachine_Save ::
  "'m OnDiskStateMachine \<Rightarrow> any \<Rightarrow> Writer \<Rightarrow> ISnapshotFileCollection \<Rightarrow> stopc \<Rightarrow> 'm
     \<Rightarrow> panic + (error option \<times> 'm)" where
  "OnDiskStateMachine_Save s ctx w fc stop m =
     (if \<not> opened s then Inl (Panic ''SaveSnapshot called when not opened'')
      else Inr (od_SaveSnapshot (d_sm s) ctx w stop m))"

definition OnDiskStateMachine_Recover ::
  "'m OnDiskStateMachine \<Rightarrow> Reader \<Rightarrow> SnapshotFile list \<Rightarrow> stopc \<Rightarrow> 'm
     \<Rightarrow> panic + (error option \<times> 'm)" where
  "OnDiskStateMachine_Recover s r fs stop m =
     (if \<not> opened s then Inl (Panic ''RecoverFromSnapshot called when not opened'')
      else Inr (od_RecoverFromSnapshot (d_sm s) r stop m))"

definition OnDiskStateMachine_Close ::
  "'m OnDiskStateMachine \<Rightarrow> 'm \<Rightarrow> panic + (error option \<times> 'm)" where
  "OnDiskStateMachine_Close s m = Inr (od_Close (d_sm s) m)"

definition OnDiskStateMachine_GetHash ::
  "'m OnDiskStateMachine \<Rightarrow> 'm \<Rightarrow> panic + (uint64 \<times> error option \<times> 'm)" where
  "OnDiskStateMachine_GetHash s m =
     (case d_h s of
        None \<Rightarrow> Inr (0, Some ErrNotImplemented, m)
      | Some h \<Rightarrow> Inr (h m))"

definition OnDiskStateMachine_Concurrent :: "'m OnDiskStateMachine \<Rightarrow> bool" where
  "OnDiskStateMachine_Concurrent s = True"

definition OnDiskStateMachine_OnDisk :: "'m OnDiskStateMachine \<Rightarrow> bool" where
  "OnDiskStateMachine_OnDisk s = True"

definition OnDiskStateMachine_Type :: "'m OnDiskStateMachine \<Rightarrow> StateMachineType" where
  "OnDiskStateMachine_Type s = pb_OnDiskStateMachine"

section \<open>The adapter interface\<close>

text \<open>
  \<open>rsm.IStateMachine\<close> is implemented by the three adapters; a value of the interface
  holds one of them. The three queries below are the interface methods that take no
  argument beside the receiver and touch nothing.
\<close>

datatype 'm rsm_IStateMachine =
  AsRegular "'m RegularStateMachine"
| AsConcurrent "'m ConcurrentStateMachine"
| AsOnDisk "'m OnDiskStateMachine"

fun IStateMachine_Concurrent :: "'m rsm_IStateMachine \<Rightarrow> bool" where
  "IStateMachine_Concurrent (AsRegular s) = RegularStateMachine_Concurrent s"
| "IStateMachine_Concurrent (AsConcurrent s) = ConcurrentStateMachine_Concurrent s"
| "IStateMachine_Concurrent (AsOnDisk s) = OnDiskStateMachine_Concurrent s"

fun IStateMachine_OnDisk :: "'m rsm_IStateMachine \<Rightarrow> bool" where
  "IStateMachine_OnDisk (AsRegular s) = RegularStateMachine_OnDisk s"
| "IStateMachine_OnDisk (AsConcurrent s) = ConcurrentStateMachine_OnDisk s"
| "IStateMachine_OnDisk (AsOnDisk s) = OnDiskStateMachine_OnDisk s"

fun IStateMachine_Type :: "'m rsm_IStateMachine \<Rightarrow> StateMachineType" where
  "IStateMachine_Type (AsRegular s) = RegularStateMachine_Type s"
| "IStateMachine_Type (AsConcurrent s) = ConcurrentStateMachine_Type s"
| "IStateMachine_Type (AsOnDisk s) = OnDiskStateMachine_Type s"

section \<open>The lifetime of an on-disk adapter\<close>

text \<open>
  The regular and the concurrent adapter never write a field after construction. The
  on-disk adapter does (\<open>opened\<close>), so what holds "before Open" or "after Open" is stated
  over the calls made so far. A call that panics ends the run.
\<close>

datatype od_call =
  Call_Open stopc
| Call_Update "Entry list"
| Call_Lookup any
| Call_NALookup bytes
| Call_Sync
| Call_Prepare
| Call_Save any Writer ISnapshotFileCollection stopc
| Call_Recover Reader "SnapshotFile list" stopc
| Call_Close
| Call_GetHash
| Call_Concurrent
| Call_OnDisk
| Call_Type
| Call_SetTestFS IFS

fun is_Open :: "od_call \<Rightarrow> bool" where
  "is_Open (Call_Open stop) = True"
| "is_Open c = False"

fun OnDiskStateMachine_call ::
  "od_call \<Rightarrow> 'm OnDiskStateMachine \<Rightarrow> 'm \<Rightarrow> panic + ('m OnDiskStateMachine \<times> 'm)" where
  "OnDiskStateMachine_call (Call_Open stop) s m =
     (case OnDiskStateMachine_Open s stop m of
        Inl p \<Rightarrow> Inl p | Inr (applied, err, s', m') \<Rightarrow> Inr (s', m'))"
| "OnDiskStateMachine_call (Call_Update es) s m =
     (case OnDiskStateMachine_Update s es m of
        Inl p \<Rightarrow> Inl p | Inr (res, err, m') \<Rightarrow> Inr (s, m'))"
| "OnDiskStateMachine_call (Call_Lookup q) s m =
     (case OnDiskStateMachine_Lookup s q m of
        Inl p \<Rightarrow> Inl p | Inr (res, err, m') \<Rightarrow> Inr (s, m'))"
| "OnDiskStateMachine_call (Call_NALookup q) s m =
     (case OnDiskStateMachine_NALookup s q m of
        Inl p \<Rightarrow> Inl p | Inr (res, err, m') \<Rightarrow> Inr (s, m'))"
| "OnDiskStateMachine_call Call_Sync s m =
     (case OnDiskStateMachine_Sync s m of
        Inl p \<Rightarrow> Inl p | Inr (err, m') \<Rightarrow> Inr (s, m'))"
| "OnDiskStateMachine_call Call_Prepare s m =
     (case OnDiskStateMachine_Prepare s m of
        Inl p \<Rightarrow> Inl p | Inr (ctx, err, m') \<Rightarrow> Inr (s, m'))"
| "OnDiskStateMachine_call (Call_Save ctx w fc stop) s m =
     (case OnDiskStateMachine_Save s ctx w fc stop m of
        Inl p \<Rightarrow> Inl p | Inr (err, m') \<Rightarrow> Inr (s, m'))"
| "OnDiskStateMachine_call (Call_Recover r fs stop) s m =
     (case OnDiskStateMachine_Recover s r fs stop m of
        Inl p \<Rightarrow> Inl p | Inr (err, m') \<Rightarrow> Inr (s, m'))"
| "OnDiskStateMachine_call Call_Close s m =
     (case OnDiskStateMachine_Close s m of
        Inl p \<Rightarrow> Inl p | Inr (err, m') \<Rightarrow> Inr (s, m'))"
| "OnDiskStateMachine_call Call_GetHash s m =
     (case OnDiskStateMachine_GetHash s m of
        Inl p \<Rightarrow> Inl p | Inr (hv, err, m') \<Rightarrow> Inr (s, m'))"
| "OnDiskStateMachine_call Call_Concurrent s m = Inr (s, m)"
| "OnDiskStateMachine_call Call_OnDisk s m = Inr (s, m)"
| "OnDiskStateMachine_call Call_Type s m = Inr (s, m)"
| "OnDiskStateMachine_call (Call_SetTestFS fs) s m = Inr (s, OnDiskStateMachine_SetTestFS s fs m)"

fun OnDiskStateMachine_run ::
  "od_call list \<Rightarrow> 'm OnDiskStateMachine \<Rightarrow> 'm \<Rightarrow> panic + ('m OnDiskStateMachine \<times> 'm)" where
  "OnDiskStateMachine_run [] s m = Inr (s, m)"
| "OnDiskStateMachine_run (c # cs) s m =
     (case OnDiskStateMachine_call c s m of
        Inl p \<Rightarrow> Inl p | Inr (s', m') \<Rightarrow> OnDiskStateMachine_run cs s' m')"

section \<open>PebbleKV.IterateValue\<close>

text \<open>
  The Pebble database and its iterator belong to a library outside the repository. They
  are modelled by what \<open>IterateValue\<close> relies on: the stored pairs in the order the
  iterator yields them, \<open>SeekGE\<close> moving to the first pair whose key is not below the
  bound, \<open>Next\<close> moving one pair on, and an error the iterator may report.
  \<open>Key\<close> and \<open>Value\<close> are read only after the iterator was found valid, as in the
  loop below. \<open>bytes.Compare\<close> is the lexicographic order on byte strings, bytes
  compared unsigned. The deferred \<open>iter.Close()\<close> releases the iterator and changes
  nothing the caller sees.
\<close>

record DB =
  db_entries :: "(bytes \<times> bytes) list"
  db_iter_error :: "error option"

record Iterator =
  source :: "(bytes \<times> bytes) list"
  remaining :: "(bytes \<times> bytes) list"
  fault :: "error option"

record PebbleKV =
  db :: DB

definition bytes_Compare :: "bytes \<Rightarrow> bytes \<Rightarrow> int" where
  "bytes_Compare a b = (if a < b then - 1 else if a = b then 0 else 1)"

definition NewIter :: "DB \<Rightarrow> Iterator" where
  "NewIter d = \<lparr>source = db_entries d, remaining = [], fault = db_iter_error d\<rparr>"

definition Iterator_SeekGE :: "bytes \<Rightarrow> Iterator \<Rightarrow> Iterator" where
  "Iterator_SeekGE fk iter = iter\<lparr>remaining := dropWhile (\<lambda>(k, v). k < fk) (source iter)\<rparr>"

definition Iterator_Valid :: "Iterator \<Rightarrow> bool" where
  "Iterator_Valid iter = (remaining iter \<noteq> [])"

definition Iterator_Error :: "Iterator \<Rightarrow> error option" where
  "Iterator_Error iter = fault iter"

definition Iterator_Key :: "Iterator \<Rightarrow> bytes" where
  "Iterator_Key iter = fst (hd (remaining iter))"

definition Iterator_Value :: "Iterator \<Rightarrow> bytes" where
  "Iterator_Value iter = snd (hd (remaining iter))"

definition Iterator_Next :: "Iterator \<Rightarrow> Iterator" where
  "Iterator_Next iter = iter\<lparr>remaining := tl (remaining iter)\<rparr>"

definition iteratorIsValid :: "Iterator \<Rightarrow> panic + bool" where
  "iteratorIsValid iter =
     (let v = Iterator_Valid iter in
      case Iterator_Error iter of Some err \<Rightarrow> Inl (PanicErr err) | None \<Rightarrow> Inr v)"

text \<open>
  The callback \<open>op\<close> is a closure; \<open>'st\<close> is the state it captures. The loop of
  \<open>IterateValue\<close>, from the condition of the \<open>for\<close> statement on:
\<close>

function IterateValue_loop ::
  "Iterator \<Rightarrow> bytes \<Rightarrow> bool \<Rightarrow> (bytes \<Rightarrow> bytes \<Rightarrow> 'st \<Rightarrow> bool \<times> error option \<times> 'st) \<Rightarrow> 'st
     \<Rightarrow> panic + (error option \<times> 'st)" where
  "IterateValue_loop iter lk inc opf st =
     (case iteratorIsValid iter of
        Inl p \<Rightarrow> Inl p
      | Inr v \<Rightarrow>
          if \<not> v then Inr (None, st)
          else (let key = Iterator_Key iter; val = Iterator_Value iter in
                if (if inc then bytes_Compare key lk > 0 else bytes_Compare key lk \<ge> 0)
                then Inr (None, st)
                else (case opf key val st of
                        (cont, err, st') \<Rightarrow>
                          if err \<noteq> None then Inr (err, st')
                          else if \<not> cont then Inr (None, st')
                          else IterateValue_loop (Iterator_Next iter) lk inc opf st')))"
  by pat_completeness auto
termination
proof (relation "measure (\<lambda>(iter, lk, inc, opf, st). length (remaining iter))")
  show "wf (measure (\<lambda>(iter, lk, inc, opf, st). length (remaining iter)))"
    by simp
next
  fix iter :: Iterator and lk :: bytes and inc :: bool
    and opf :: "bytes \<Rightarrow> bytes \<Rightarrow> 'st \<Rightarrow> bool \<times> error option \<times> 'st" and st :: 'st
    and v key val x y cont xa ya err st'
  assume "iteratorIsValid iter = Inr v" and "\<not> \<not> v"
  then have "remaining iter \<noteq> []"
    by (auto simp: iteratorIsValid_def Iterator_Valid_def split: option.splits)
  then show "((Iterator_Next iter, lk, inc, opf, st'), (iter, lk, inc, opf, st))
      \<in> measure (\<lambda>(iter, lk, inc, opf, st). length (remaining iter))"
    by (simp add: Iterator_Next_def)
qed

definition IterateValue ::
  "PebbleKV \<Rightarrow> bytes \<Rightarrow> bytes \<Rightarrow> bool \<Rightarrow> (bytes \<Rightarrow> bytes \<Rightarrow> 'st \<Rightarrow> bool \<times> error option \<times> 'st)
     \<Rightarrow> 'st \<Rightarrow> panic + (error option \<times> 'st)" where
  "IterateValue r fk lk inc opf st =
     (let iter = NewIter (db r) in
      IterateValue_loop (Iterator_SeekGE fk iter) lk inc opf st)"

text \<open>
  What the range iteration is to do, in the words of its contract: the pairs whose key
  lies between the bounds, and the callback applied to them in turn until it reports an
  error (which is returned) or asks to stop.
\<close>

definition in_range :: "bytes \<Rightarrow> bytes \<Rightarrow> bool \<Rightarrow> bytes \<Rightarrow> bool" where
  "in_range fk lk inc k = (fk \<le> k \<and> (if inc then k \<le> lk else k < lk))"

fun visit ::
  "(bytes \<Rightarrow> bytes \<Rightarrow> 'st \<Rightarrow> bool \<times> error option \<times> 'st) \<Rightarrow> (bytes \<times> bytes) list \<Rightarrow> 'st
     \<Rightarrow> error option \<times> 'st" where
  "visit opf [] st = (None, st)"
| "visit opf ((k, v) # kvs) st =
     (case opf k v st of
        (cont, Some e, st') \<Rightarrow> (Some e, st')
      | (cont, None, st') \<Rightarrow> if cont then visit opf kvs st' else (None, st'))"

section \<open>Test doubles\<close>

text \<open>
  Wrapped machines for the concrete instances below. Their world is the list of the
  calls made on them so far, each with the handles it was given, so a call that reaches
  the wrapped machine shows in it with its arguments.
\<close>

datatype seen = Seen string "nat list"

definition demo_hash :: "seen list IHash" where
  "demo_hash = (\<lambda>m. (42, Some (ErrOther ''hash failed''), m @ [Seen ''GetHash'' []]))"

definition demo_nalookup :: "seen list IExtended" where
  "demo_nalookup = (\<lambda>q m. (rev q, None, m @ [Seen ''NALookup'' []]))"

definition demo_regular :: "seen list sm_IStateMachine" where
  "demo_regular = \<lparr>
     sm_Update =
       (\<lambda>cmd m. (\<lparr>Value = 7, Data = cmd\<rparr>, Some (ErrOther ''rejected''), m @ [Seen ''Update'' []])),
     sm_Lookup = (\<lambda>q m. (q, Some (ErrOther ''no such key''), m @ [Seen ''Lookup'' []])),
     sm_SaveSnapshot =
       (\<lambda>w fc stop m. (Some (ErrOther ''disk full''), m @ [Seen ''SaveSnapshot'' [w, fc, stop]])),
     sm_RecoverFromSnapshot =
       (\<lambda>r fs stop m.
          (Some (ErrOther ''bad snapshot''), m @ [Seen ''RecoverFromSnapshot'' (r # fs @ [stop])])),
     sm_Close = (\<lambda>m. (Some (ErrOther ''close failed''), m @ [Seen ''Close'' []])),
     sm_IHash = None,
     sm_IExtended = None\<rparr>"

definition demo_concurrent :: "seen list sm_IConcurrentStateMachine" where
  "demo_concurrent = \<lparr>
     csm_Update = (\<lambda>es m. (es, Some (ErrOther ''rejected''), m @ [Seen ''Update'' []])),
     csm_Lookup = (\<lambda>q m. (q, Some (ErrOther ''no such key''), m @ [Seen ''Lookup'' []])),
     csm_PrepareSnapshot = (\<lambda>m. (Dyn (length m), None, m @ [Seen ''PrepareSnapshot'' []])),
     csm_SaveSnapshot =
       (\<lambda>ctx w fc stop m.
          (Some (ErrOther ''disk full''), m @ [Seen ''SaveSnapshot'' [w, fc, stop]])),
     csm_RecoverFromSnapshot =
       (\<lambda>r fs stop m.
          (Some (ErrOther ''bad snapshot''), m @ [Seen ''RecoverFromSnapshot'' (r # fs @ [stop])])),
     csm_Close = (\<lambda>m. (Some (ErrOther ''close failed''), m @ [Seen ''Close'' []])),
     csm_IHash = None,
     csm_IExtended = None\<rparr>"

definition demo_disk :: "seen list sm_IOnDiskStateMachine" where
  "demo_disk = \<lparr>
     od_Open = (\<lambda>stop m. (5, None, m @ [Seen ''Open'' [stop]])),
     od_Update = (\<lambda>es m. (es, Some (ErrOther ''rejected''), m @ [Seen ''Update'' []])),
     od_Lookup = (\<lambda>q m. (q, Some (ErrOther ''no such key''), m @ [Seen ''Lookup'' []])),
     od_Sync = (\<lambda>m. (None, m @ [Seen ''Sync'' []])),
     od_PrepareSnapshot = (\<lambda>m. (Dyn (length m), None, m @ [Seen ''PrepareSnapshot'' []])),
     od_SaveSnapshot =
       (\<lambda>ctx w stop m. (Some (ErrOther ''disk full''), m @ [Seen ''SaveSnapshot'' [w, stop]])),
     od_RecoverFromSnapshot =
       (\<lambda>r stop m. (Some (ErrOther ''bad snapshot''), m @ [Seen ''RecoverFromSnapshot'' [r, stop]])),
     od_Close = (\<lambda>m. (Some (ErrOther ''close failed''), m @ [Seen ''Close'' []])),
     od_IHash = None,
     od_IExtended = None,
     od_ITestFS = None\<rparr>"

text \<open>A callback for \<open>IterateValue\<close> that collects the keys it is given.\<close>

definition collect :: "bytes \<Rightarrow> bytes \<Rightarrow> bytes list \<Rightarrow> bool \<times> error option \<times> bytes list" where
  "collect k v acc = (True, None, acc @ [k])"

definition demo_kv :: PebbleKV where
  "demo_kv = \<lparr>db = \<lparr>db_entries = [([1], [10]), ([2], [20]), ([2, 0], [21]), ([3], [30])],
                     db_iter_error = None\<rparr>\<rparr>"

section \<open>Facts about the constructors and the lifetime\<close>

lemma New_Regular_fields:
  "r_sm (NewRegularStateMachine w) = w"
  "r_h (NewRegularStateMachine w) = sm_IHash w"
  "r_na (NewRegularStateMachine w) = sm_IExtended w"
  by (simp_all add: NewRegularStateMachine_def Let_def split: option.splits)

lemma New_Concurrent_fields:
  "c_sm (NewConcurrentStateMachine w) = w"
  "c_h (NewConcurrentStateMachine w) = csm_IHash w"
  "c_na (NewConcurrentStateMachine w) = csm_IExtended w"
  by (simp_all add: NewConcurrentStateMachine_def Let_def split: option.splits)

lemma New_OnDisk_fields:
  "d_sm (NewOnDiskStateMachine w) = w"
  "d_h (NewOnDiskStateMachine w) = od_IHash w"
  "d_na (NewOnDiskStateMachine w) = od_IExtended w"
  "opened (NewOnDiskStateMachine w) = False"
  by (simp_all add: NewOnDiskStateMachine_def Let_def split: option.splits)

lemmas Regular_defs =
  RegularStateMachine_Open_def RegularStateMachine_Update_def RegularStateMachine_Lookup_def
  RegularStateMachine_NALookup_def RegularStateMachine_Sync_def RegularStateMachine_Prepare_def
  RegularStateMachine_Save_def RegularStateMachine_Recover_def RegularStateMachine_Close_def
  RegularStateMachine_GetHash_def

lemmas Concurrent_defs =
  ConcurrentStateMachine_Open_def ConcurrentStateMachine_Update_def
  ConcurrentStateMachine_Lookup_def ConcurrentStateMachine_NALookup_def
  ConcurrentStateMachine_Sync_def ConcurrentStateMachine_Prepare_def
  ConcurrentStateMachine_Save_def ConcurrentStateMachine_Recover_def
  ConcurrentStateMachine_Close_def ConcurrentStateMachine_GetHash_def

lemmas OnDisk_defs =
  OnDiskStateMachine_Open_def OnDiskStateMachine_Update_def OnDiskStateMachine_Lookup_def
  OnDiskStateMachine_NALookup_def OnDiskStateMachine_Sync_def OnDiskStateMachine_Prepare_def
  OnDiskStateMachine_Save_def OnDiskStateMachine_Recover_def OnDiskStateMachine_Close_def
  OnDiskStateMachine_GetHash_def

lemma call_fields:
  assumes "OnDiskStateMachine_call c s m = Inr (s', m')"
  shows "d_sm s' = d_sm s \<and> d_h s' = d_h s \<and> d_na s' = d_na s"
  using assms
  by (cases c) (auto simp: OnDisk_defs Let_def split: if_splits sum.splits prod.splits option.splits)

lemma call_opened:
  assumes "OnDiskStateMachine_call c s m = Inr (s', m')"
  shows "opened s' = (opened s \<or> is_Open c)"
  using assms
  by (cases c) (auto simp: OnDisk_defs Let_def split: if_splits sum.splits prod.splits option.splits)

lemma run_fields:
  "OnDiskStateMachine_run cs s m = Inr (s', m') \<Longrightarrow>
     d_sm s' = d_sm s \<and> d_h s' = d_h s \<and> d_na s' = d_na s"
proof (induction cs arbitrary: s m)
  case Nil
  then show ?case by simp
next
  case (Cons c cs)
  then obtain s1 m1 where step: "OnDiskStateMachine_call c s m = Inr (s1, m1)"
    and rest: "OnDiskStateMachine_run cs s1 m1 = Inr (s', m')"
    by (auto split: sum.splits)
  from Cons.IH [OF rest] call_fields [OF step] show ?case by simp
qed

lemma run_opened:
  "OnDiskStateMachine_run cs s m = Inr (s', m') \<Longrightarrow>
     opened s' = (opened s \<or> list_ex is_Open cs)"
proof (induction cs arbitrary: s m)
  case Nil
  then show ?case by simp
next
  case (Cons c cs)
  then obtain s1 m1 where step: "OnDiskStateMachine_call c s m = Inr (s1, m1)"
    and rest: "OnDiskStateMachine_run cs s1 m1 = Inr (s', m')"
    by (auto split: sum.splits)
  from Cons.IH [OF rest] call_opened [OF step] show ?case by auto
qed

lemma run_New:
  assumes "OnDiskStateMachine_run cs (NewOnDiskStateMachine d) m0 = Inr (s, m)"
  shows "d_sm s = d" "d_h s = od_IHash d" "d_na s = od_IExtended d"
    "opened s = list_ex is_Open cs"
  using run_fields [OF assms] run_opened [OF assms] by (simp_all add: New_OnDisk_fields)

lemma demo_run_Open:
  "OnDiskStateMachine_run [Call_Open 0] (NewOnDiskStateMachine demo_disk) []
     = Inr (NewOnDiskStateMachine demo_disk\<lparr>opened := True\<rparr>, [Seen ''Open'' [0]])"
  by (simp add: OnDiskStateMachine_Open_def NewOnDiskStateMachine_def demo_disk_def)

section \<open>Facts about the iteration loop\<close>

declare IterateValue_loop.simps [simp del]

lemma loop_takeWhile:
  assumes "fault iter = None"
    and cmp: "\<And>k. (if inc then bytes_Compare k lk > 0 else bytes_Compare k lk \<ge> 0) = (\<not> P k)"
  shows "IterateValue_loop iter lk inc opf st
           = Inr (visit opf (takeWhile (\<lambda>(k, v). P k) (remaining iter)) st)"
  using assms(1)
proof (induction "remaining iter" arbitrary: iter st)
  case Nil
  then show ?case
    by (subst IterateValue_loop.simps)
       (simp add: iteratorIsValid_def Iterator_Valid_def Iterator_Error_def)
next
  case (Cons kv kvs)
  obtain k v where kv: "kv = (k, v)" by (cases kv)
  have rem: "remaining iter = (k, v) # kvs"
    using Cons.hyps(2) kv by simp
  have nxt: "kvs = remaining (Iterator_Next iter)" "fault (Iterator_Next iter) = None"
    using rem Cons.prems by (simp_all add: Iterator_Next_def)
  have IH: "IterateValue_loop (Iterator_Next iter) lk inc opf st'
      = Inr (visit opf (takeWhile (\<lambda>(k, v). P k) kvs) st')" for st'
    using Cons.hyps(1) [OF nxt] nxt(1) by simp
  show ?case
    by (subst IterateValue_loop.simps)
       (simp add: iteratorIsValid_def Iterator_Valid_def Iterator_Error_def Iterator_Key_def
          Iterator_Value_def rem Cons.prems IH cmp
          split: prod.splits option.splits)
qed

lemma bytes_Compare_bound:
  "(if inc then bytes_Compare k lk > 0 else bytes_Compare k lk \<ge> 0)
     = (\<not> (if inc then k \<le> lk else k < lk))"
  by (auto simp: bytes_Compare_def)

lemma dropWhile_sorted_filter:
  "sorted (map fst xs) \<Longrightarrow>
     dropWhile (\<lambda>(k, v). k < (fk :: bytes)) xs = filter (\<lambda>(k, v). fk \<le> k) xs"
  by (induction xs) (auto intro!: filter_True [symmetric])

lemma takeWhile_sorted_filter:
  assumes "\<And>a b :: bytes. a \<le> b \<Longrightarrow> P b \<Longrightarrow> P a"
  shows "sorted (map fst xs) \<Longrightarrow>
     takeWhile (\<lambda>(k, v). P k) xs = filter (\<lambda>(k, v). P k) xs"
  using assms by (induction xs) (fastforce intro!: filter_False [symmetric])+

section \<open>The adapters\<close>

text \<open>
  Claim C1. Take an on-disk adapter fresh from \<open>NewOnDiskStateMachine\<close> and any calls
  \<open>cs\<close> made on it that all returned. If no \<open>Open\<close> is among them, then \<open>Update\<close>,
  \<open>Lookup\<close>, \<open>Sync\<close>, \<open>Prepare\<close>, \<open>Save\<close> and \<open>Recover\<close> each panic. If an \<open>Open\<close> is
  among them (whether or not the wrapped machine's \<open>Open\<close> reported an error), a further
  \<open>Open\<close> panics, and each of the six operations returns exactly what the corresponding
  method of the wrapped machine returns, with no other check in between.
\<close>

theorem OnDisk_lifecycle:
  assumes "OnDiskStateMachine_run cs (NewOnDiskStateMachine d) m0 = Inr (s, m)"
  shows "(\<not> list_ex is_Open cs \<longrightarrow>
            OnDiskStateMachine_Update s es m = Inl (Panic ''Update called before Open'')
          \<and> OnDiskStateMachine_Lookup s q m = Inl (Panic ''Lookup called when not opened'')
          \<and> OnDiskStateMachine_Sync s m = Inl (Panic ''Sync called when not opened'')
          \<and> OnDiskStateMachine_Prepare s m = Inl (Panic ''PrepareSnapshot called when not opened'')
          \<and> OnDiskStateMachine_Save s ctx w fc stop m
              = Inl (Panic ''SaveSnapshot called when not opened'')
          \<and> OnDiskStateMachine_Recover s r fs stop m
              = Inl (Panic ''RecoverFromSnapshot called when not opened''))
       \<and> (list_ex is_Open cs \<longrightarrow>
            OnDiskStateMachine_Open s stop m
              = Inl (Panic ''Open called more than once on OnDiskStateMachine'')
          \<and> OnDiskStateMachine_Update s es m = Inr (od_Update d es m)
          \<and> OnDiskStateMachine_Lookup s q m = Inr (od_Lookup d q m)
          \<and> OnDiskStateMachine_Sync s m = Inr (od_Sync d m)
          \<and> OnDiskStateMachine_Prepare s m = Inr (od_PrepareSnapshot d m)
          \<and> OnDiskStateMachine_Save s ctx w fc stop m = Inr (od_SaveSnapshot d ctx w stop m)
          \<and> OnDiskStateMachine_Recover s r fs stop m = Inr (od_RecoverFromSnapshot d r stop m))"
  using run_New [OF assms] by (simp add: OnDisk_defs)

theorem OnDisk_lifecycle_witness:
  "OnDiskStateMachine_Update (NewOnDiskStateMachine demo_disk) [] []
     = Inl (Panic ''Update called before Open'')
   \<and> OnDiskStateMachine_Sync (NewOnDiskStateMachine demo_disk) []
     = Inl (Panic ''Sync called when not opened'')
   \<and> OnDiskStateMachine_Open (NewOnDiskStateMachine demo_disk\<lparr>opened := True\<rparr>) 0 [Seen ''Open'' [0]]
     = Inl (Panic ''Open called more than once on OnDiskStateMachine'')
   \<and> OnDiskStateMachine_Sync (NewOnDiskStateMachine demo_disk\<lparr>opened := True\<rparr>) [Seen ''Open'' [0]]
     = Inr (None, [Seen ''Open'' [0], Seen ''Sync'' []])"
proof -
  have before: "OnDiskStateMachine_run [] (NewOnDiskStateMachine demo_disk) []
      = Inr (NewOnDiskStateMachine demo_disk, [])"
    by simp
  show ?thesis
    using OnDisk_lifecycle [OF before, where es = "[]"]
      OnDisk_lifecycle [OF demo_run_Open, where stop = 0]
    by (simp add: demo_disk_def)
qed

text \<open>
  Claim C2. \<open>Update\<close> of the regular adapter panics on a batch whose length is not 1. On
  a batch of one entry \<open>e\<close> it returns that entry with \<open>Result\<close> set to the result of the
  wrapped machine's \<open>Update\<close> on \<open>Cmd e\<close>, together with the wrapped machine's error; so
  it returns no error when the wrapped machine returns none.
\<close>

theorem Regular_Update_single:
  "(length entries \<noteq> 1 \<longrightarrow>
      RegularStateMachine_Update s entries m = Inl (Panic ''len(entries) != 1''))
   \<and> (sm_Update (r_sm s) (Cmd e) m = (res, err, m') \<longrightarrow>
      RegularStateMachine_Update s [e] m = Inr ([e\<lparr>Result := res\<rparr>], err, m'))
   \<and> (sm_Update (r_sm s) (Cmd e) m = (res, None, m') \<longrightarrow>
      RegularStateMachine_Update s [e] m = Inr ([e\<lparr>Result := res\<rparr>], None, m'))"
  by (simp add: RegularStateMachine_Update_def)

theorem Regular_Update_single_witness:
  "RegularStateMachine_Update (NewRegularStateMachine demo_regular) [] []
     = Inl (Panic ''len(entries) != 1'')
   \<and> RegularStateMachine_Update (NewRegularStateMachine demo_regular)
       [\<lparr>Index = 1, Cmd = [1, 2], Result = \<lparr>Value = 0, Data = []\<rparr>\<rparr>] []
     = Inr ([\<lparr>Index = 1, Cmd = [1, 2], Result = \<lparr>Value = 7, Data = [1, 2]\<rparr>\<rparr>],
            Some (ErrOther ''rejected''), [Seen ''Update'' []])"
  using Regular_Update_single [where entries = "[]" and s = "NewRegularStateMachine demo_regular"
      and m = "[]" and e = "\<lparr>Index = 1, Cmd = [1, 2], Result = \<lparr>Value = 0, Data = []\<rparr>\<rparr>"
      and res = "\<lparr>Value = 7, Data = [1, 2]\<rparr>" and err = "Some (ErrOther ''rejected'')"
      and m' = "[Seen ''Update'' []]"]
  by (simp add: New_Regular_fields demo_regular_def)

text \<open>
  Claim C3. \<open>Save\<close> of the regular adapter panics on every context other than nil; on the
  nil context it returns what the wrapped machine's \<open>SaveSnapshot\<close> returns, its error
  as it is.
\<close>

theorem Regular_Save_context:
  "(ctx \<noteq> nil \<longrightarrow> RegularStateMachine_Save s ctx w fc stop m = Inl (Panic ''ctx is not nil''))
   \<and> RegularStateMachine_Save s nil w fc stop m = Inr (sm_SaveSnapshot (r_sm s) w fc stop m)"
  by (simp add: RegularStateMachine_Save_def)

theorem Regular_Save_context_witness:
  "Dyn 3 \<noteq> nil
   \<and> RegularStateMachine_Save (NewRegularStateMachine demo_regular) (Dyn 3) 1 5 0 []
       = Inl (Panic ''ctx is not nil'')
   \<and> RegularStateMachine_Save (NewRegularStateMachine demo_regular) nil 1 5 0 []
       = Inr (Some (ErrOther ''disk full''), [Seen ''SaveSnapshot'' [1, 5, 0]])"
  using Regular_Save_context [where ctx = "Dyn 3" and s = "NewRegularStateMachine demo_regular"
      and w = 1 and fc = 5 and stop = 0 and m = "[]"]
  by (simp add: New_Regular_fields demo_regular_def)

text \<open>
  Claim C4. \<open>Open\<close>, \<open>Sync\<close> and \<open>Prepare\<close> of the regular adapter and \<open>Open\<close> and
  \<open>Sync\<close> of the concurrent adapter panic, whatever the adapter and the world are.
\<close>

theorem unsupported_calls_panic:
  "RegularStateMachine_Open rs stop rm = Inl (Panic ''Open() called on RegularStateMachine'')
   \<and> RegularStateMachine_Sync rs rm = Inl (Panic ''Sync called on RegularStateMachine'')
   \<and> RegularStateMachine_Prepare rs rm
       = Inl (Panic ''PrepareSnapshot called on RegularStateMachine'')
   \<and> ConcurrentStateMachine_Open cs stop cm
       = Inl (Panic ''Open() called on RegularStateMachine'')
   \<and> ConcurrentStateMachine_Sync cs cm = Inl (Panic ''Sync called on ConcurrentStateMachine'')"
  by (simp add: RegularStateMachine_Open_def RegularStateMachine_Sync_def
      RegularStateMachine_Prepare_def ConcurrentStateMachine_Open_def
      ConcurrentStateMachine_Sync_def)

text \<open>
  Claim C5. When the wrapped machine has no \<open>GetHash\<close> method at construction, every
  \<open>GetHash\<close> on the adapter returns \<open>ErrNotImplemented\<close> and leaves the world as it was;
  the same for \<open>NALookup\<close> when the wrapped machine has no \<open>NALookup\<close> method. The
  wrapped machine's methods are arbitrary functions on the world, so an adapter that
  called any of them could not leave every world unchanged. The regular and the concurrent
  adapter are never modified after construction; for the on-disk adapter the statement is
  made at every state its calls can lead to.
\<close>

theorem capability_absent:
  "(sm_IHash rw = None \<longrightarrow>
      RegularStateMachine_GetHash (NewRegularStateMachine rw) rm
        = Inr (0, Some ErrNotImplemented, rm))
   \<and> (sm_IExtended rw = None \<longrightarrow>
      RegularStateMachine_NALookup (NewRegularStateMachine rw) q rm
        = Inr ([], Some ErrNotImplemented, rm))
   \<and> (csm_IHash cw = None \<longrightarrow>
      ConcurrentStateMachine_GetHash (NewConcurrentStateMachine cw) cm
        = Inr (0, Some ErrNotImplemented, cm))
   \<and> (csm_IExtended cw = None \<longrightarrow>
      ConcurrentStateMachine_NALookup (NewConcurrentStateMachine cw) q cm
        = Inr ([], Some ErrNotImplemented, cm))
   \<and> (OnDiskStateMachine_run cs (NewOnDiskStateMachine dw) m0 = Inr (s, dm) \<longrightarrow>
        (od_IHash dw = None \<longrightarrow>
           OnDiskStateMachine_GetHash s dm = Inr (0, Some ErrNotImplemented, dm))
      \<and> (od_IExtended dw = None \<longrightarrow>
           OnDiskStateMachine_NALookup s q dm = Inr ([], Some ErrNotImplemented, dm)))"
proof -
  have "OnDiskStateMachine_GetHash s dm = Inr (0, Some ErrNotImplemented, dm)"
    if "OnDiskStateMachine_run cs (NewOnDiskStateMachine dw) m0 = Inr (s, dm)"
      and "od_IHash dw = None"
    using run_New(2) [OF that(1)] that(2) by (simp add: OnDiskStateMachine_GetHash_def)
  moreover have "OnDiskStateMachine_NALookup s q dm = Inr ([], Some ErrNotImplemented, dm)"
    if "OnDiskStateMachine_run cs (NewOnDiskStateMachine dw) m0 = Inr (s, dm)"
      and "od_IExtended dw = None"
    using run_New(3) [OF that(1)] that(2) by (simp add: OnDiskStateMachine_NALookup_def)
  ultimately show ?thesis
    by (simp add: RegularStateMachine_GetHash_def RegularStateMachine_NALookup_def
        ConcurrentStateMachine_GetHash_def ConcurrentStateMachine_NALookup_def
        New_Regular_fields New_Concurrent_fields)
qed

theorem capability_absent_witness:
  "RegularStateMachine_GetHash (NewRegularStateMachine demo_regular) []
     = Inr (0, Some ErrNotImplemented, [])
   \<and> RegularStateMachine_NALookup (NewRegularStateMachine demo_regular) [1] []
     = Inr ([], Some ErrNotImplemented, [])
   \<and> ConcurrentStateMachine_GetHash (NewConcurrentStateMachine demo_concurrent) []
     = Inr (0, Some ErrNotImplemented, [])
   \<and> ConcurrentStateMachine_NALookup (NewConcurrentStateMachine demo_concurrent) [1] []
     = Inr ([], Some ErrNotImplemented, [])
   \<and> OnDiskStateMachine_GetHash (NewOnDiskStateMachine demo_disk\<lparr>opened := True\<rparr>)
       [Seen ''Open'' [0]] = Inr (0, Some ErrNotImplemented, [Seen ''Open'' [0]])
   \<and> OnDiskStateMachine_NALookup (NewOnDiskStateMachine demo_disk\<lparr>opened := True\<rparr>) [1]
       [Seen ''Open'' [0]] = Inr ([], Some ErrNotImplemented, [Seen ''Open'' [0]])"
  using capability_absent [where rw = demo_regular and cw = demo_concurrent and dw = demo_disk
      and rm = "[]" and cm = "[]" and q = "[1]" and cs = "[Call_Open 0]" and ?m0.0 = "[]"
      and s = "NewOnDiskStateMachine demo_disk\<lparr>opened := True\<rparr>"
      and dm = "[Seen ''Open'' [0]]"]
    demo_run_Open
  by (simp add: demo_regular_def demo_concurrent_def demo_disk_def)

text \<open>
  Claim C6 fails for the on-disk adapter. \<open>IOnDiskStateMachine.SaveSnapshot\<close> takes the
  context, the writer and the stop channel; \<open>Save\<close> has no parameter to hand the file
  collection to. The wrapped machine below records the handles it is given: called with
  file collection 5 or 6, the on-disk adapter hands it writer 1 and stop channel 0 only,
  while the regular adapter passes the 5 on.
\<close>

theorem OnDisk_Save_without_file_collection:
  "OnDiskStateMachine_Save (NewOnDiskStateMachine demo_disk\<lparr>opened := True\<rparr>) nil 1 5 0 []
     = Inr (Some (ErrOther ''disk full''), [Seen ''SaveSnapshot'' [1, 0]])
   \<and> OnDiskStateMachine_Save (NewOnDiskStateMachine demo_disk\<lparr>opened := True\<rparr>) nil 1 6 0 []
     = Inr (Some (ErrOther ''disk full''), [Seen ''SaveSnapshot'' [1, 0]])
   \<and> RegularStateMachine_Save (NewRegularStateMachine demo_regular) nil 1 5 0 []
     = Inr (Some (ErrOther ''disk full''), [Seen ''SaveSnapshot'' [1, 5, 0]])"
  by (simp add: OnDiskStateMachine_Save_def RegularStateMachine_Save_def New_OnDisk_fields
      New_Regular_fields demo_disk_def demo_regular_def)

text \<open>
  Claim C6, amended. \<open>Save\<close> of the regular adapter (nil context) and of the concurrent
  adapter pass the caller's file collection to the wrapped machine's \<open>SaveSnapshot\<close>.
  \<open>Save\<close> of an opened on-disk adapter calls the wrapped machine's \<open>SaveSnapshot\<close> with
  the context, the writer and the stop channel only: its outcome does not depend on the
  file collection.
\<close>

theorem Save_file_collection:
  "RegularStateMachine_Save rs nil w fc stop rm = Inr (sm_SaveSnapshot (r_sm rs) w fc stop rm)
   \<and> ConcurrentStateMachine_Save cs ctx w fc stop cm
       = Inr (csm_SaveSnapshot (c_sm cs) ctx w fc stop cm)
   \<and> (opened ds \<longrightarrow>
        OnDiskStateMachine_Save ds ctx w fc stop dm = Inr (od_SaveSnapshot (d_sm ds) ctx w stop dm)
      \<and> OnDiskStateMachine_Save ds ctx w fc stop dm = OnDiskStateMachine_Save ds ctx w fc' stop dm)"
  by (simp add: RegularStateMachine_Save_def ConcurrentStateMachine_Save_def
      OnDiskStateMachine_Save_def)

theorem Save_file_collection_witness:
  "RegularStateMachine_Save (NewRegularStateMachine demo_regular) nil 1 5 0 []
     = Inr (Some (ErrOther ''disk full''), [Seen ''SaveSnapshot'' [1, 5, 0]])
   \<and> ConcurrentStateMachine_Save (NewConcurrentStateMachine demo_concurrent) (Dyn 2) 1 5 0 []
     = Inr (Some (ErrOther ''disk full''), [Seen ''SaveSnapshot'' [1, 5, 0]])
   \<and> opened (NewOnDiskStateMachine demo_disk\<lparr>opened := True\<rparr>)
   \<and> OnDiskStateMachine_Save (NewOnDiskStateMachine demo_disk\<lparr>opened := True\<rparr>) (Dyn 2) 1 5 0 []
     = Inr (Some (ErrOther ''disk full''), [Seen ''SaveSnapshot'' [1, 0]])"
  using Save_file_collection [where rs = "NewRegularStateMachine demo_regular"
      and cs = "NewConcurrentStateMachine demo_concurrent"
      and ds = "NewOnDiskStateMachine demo_disk\<lparr>opened := True\<rparr>"
      and ctx = "Dyn 2" and w = 1 and fc = 5 and stop = 0 and rm = "[]" and cm = "[]" and dm = "[]"]
  by (simp add: New_Regular_fields New_Concurrent_fields New_OnDisk_fields
      demo_regular_def demo_concurrent_def demo_disk_def)

text \<open>
  Claim C7. For \<open>Update\<close>, \<open>Lookup\<close>, \<open>Save\<close>, \<open>Recover\<close>, \<open>Close\<close> and (when the
  wrapped machine has the method) \<open>GetHash\<close>, each adapter returns the error the wrapped
  machine returned: the adapter's return is the wrapped method's return, error included,
  where the call reaches the wrapped machine at all (one entry for the regular \<open>Update\<close>,
  the nil context for the regular \<open>Save\<close>, after \<open>Open\<close> for the gated on-disk methods).
\<close>

theorem errors_verbatim:
  "RegularStateMachine_Update (NewRegularStateMachine rw) [e] rm
     = (case sm_Update rw (Cmd e) rm of (res, err, rm') \<Rightarrow> Inr ([e\<lparr>Result := res\<rparr>], err, rm'))
   \<and> RegularStateMachine_Lookup (NewRegularStateMachine rw) q rm = Inr (sm_Lookup rw q rm)
   \<and> RegularStateMachine_Save (NewRegularStateMachine rw) nil w fc stop rm
       = Inr (sm_SaveSnapshot rw w fc stop rm)
   \<and> RegularStateMachine_Recover (NewRegularStateMachine rw) r fs stop rm
       = Inr (sm_RecoverFromSnapshot rw r fs stop rm)
   \<and> RegularStateMachine_Close (NewRegularStateMachine rw) rm = Inr (sm_Close rw rm)
   \<and> (sm_IHash rw = Some rh \<longrightarrow>
        RegularStateMachine_GetHash (NewRegularStateMachine rw) rm = Inr (rh rm))
   \<and> ConcurrentStateMachine_Update (NewConcurrentStateMachine cw) es cm = Inr (csm_Update cw es cm)
   \<and> ConcurrentStateMachine_Lookup (NewConcurrentStateMachine cw) q cm = Inr (csm_Lookup cw q cm)
   \<and> ConcurrentStateMachine_Save (NewConcurrentStateMachine cw) ctx w fc stop cm
       = Inr (csm_SaveSnapshot cw ctx w fc stop cm)
   \<and> ConcurrentStateMachine_Recover (NewConcurrentStateMachine cw) r fs stop cm
       = Inr (csm_RecoverFromSnapshot cw r fs stop cm)
   \<and> ConcurrentStateMachine_Close (NewConcurrentStateMachine cw) cm = Inr (csm_Close cw cm)
   \<and> (csm_IHash cw = Some ch \<longrightarrow>
        ConcurrentStateMachine_GetHash (NewConcurrentStateMachine cw) cm = Inr (ch cm))
   \<and> (OnDiskStateMachine_run cs (NewOnDiskStateMachine dw) m0 = Inr (s, dm) \<longrightarrow>
        (list_ex is_Open cs \<longrightarrow>
           OnDiskStateMachine_Update s es dm = Inr (od_Update dw es dm)
         \<and> OnDiskStateMachine_Lookup s q dm = Inr (od_Lookup dw q dm)
         \<and> OnDiskStateMachine_Save s ctx w fc stop dm = Inr (od_SaveSnapshot dw ctx w stop dm)
         \<and> OnDiskStateMachine_Recover s r fs stop dm = Inr (od_RecoverFromSnapshot dw r stop dm))
      \<and> OnDiskStateMachine_Close s dm = Inr (od_Close dw dm)
      \<and> (od_IHash dw = Some dh \<longrightarrow> OnDiskStateMachine_GetHash s dm = Inr (dh dm)))"
proof -
  have regular:
    "RegularStateMachine_Update (NewRegularStateMachine rw) [e] rm
       = (case sm_Update rw (Cmd e) rm of (res, err, rm') \<Rightarrow> Inr ([e\<lparr>Result := res\<rparr>], err, rm'))"
    "RegularStateMachine_Lookup (NewRegularStateMachine rw) q rm = Inr (sm_Lookup rw q rm)"
    "RegularStateMachine_Save (NewRegularStateMachine rw) nil w fc stop rm
       = Inr (sm_SaveSnapshot rw w fc stop rm)"
    "RegularStateMachine_Recover (NewRegularStateMachine rw) r fs stop rm
       = Inr (sm_RecoverFromSnapshot rw r fs stop rm)"
    "RegularStateMachine_Close (NewRegularStateMachine rw) rm = Inr (sm_Close rw rm)"
    "sm_IHash rw = Some rh \<longrightarrow>
       RegularStateMachine_GetHash (NewRegularStateMachine rw) rm = Inr (rh rm)"
    by (simp_all add: Regular_defs New_Regular_fields split: prod.splits)
  have concurrent:
    "ConcurrentStateMachine_Update (NewConcurrentStateMachine cw) es cm = Inr (csm_Update cw es cm)"
    "ConcurrentStateMachine_Lookup (NewConcurrentStateMachine cw) q cm = Inr (csm_Lookup cw q cm)"
    "ConcurrentStateMachine_Save (NewConcurrentStateMachine cw) ctx w fc stop cm
       = Inr (csm_SaveSnapshot cw ctx w fc stop cm)"
    "ConcurrentStateMachine_Recover (NewConcurrentStateMachine cw) r fs stop cm
       = Inr (csm_RecoverFromSnapshot cw r fs stop cm)"
    "ConcurrentStateMachine_Close (NewConcurrentStateMachine cw) cm = Inr (csm_Close cw cm)"
    "csm_IHash cw = Some ch \<longrightarrow>
       ConcurrentStateMachine_GetHash (NewConcurrentStateMachine cw) cm = Inr (ch cm)"
    by (simp_all add: Concurrent_defs New_Concurrent_fields)
  have disk:
    "(list_ex is_Open cs \<longrightarrow>
           OnDiskStateMachine_Update s es dm = Inr (od_Update dw es dm)
         \<and> OnDiskStateMachine_Lookup s q dm = Inr (od_Lookup dw q dm)
         \<and> OnDiskStateMachine_Save s ctx w fc stop dm = Inr (od_SaveSnapshot dw ctx w stop dm)
         \<and> OnDiskStateMachine_Recover s r fs stop dm = Inr (od_RecoverFromSnapshot dw r stop dm))
      \<and> OnDiskStateMachine_Close s dm = Inr (od_Close dw dm)
      \<and> (od_IHash dw = Some dh \<longrightarrow> OnDiskStateMachine_GetHash s dm = Inr (dh dm))"
    if "OnDiskStateMachine_run cs (NewOnDiskStateMachine dw) m0 = Inr (s, dm)"
    using run_New [OF that] by (simp add: OnDisk_defs)
  from regular concurrent disk show ?thesis
    by blast
qed

theorem errors_verbatim_witness:
  "RegularStateMachine_Update (NewRegularStateMachine demo_regular)
       [\<lparr>Index = 1, Cmd = [1, 2], Result = \<lparr>Value = 0, Data = []\<rparr>\<rparr>] []
     = Inr ([\<lparr>Index = 1, Cmd = [1, 2], Result = \<lparr>Value = 7, Data = [1, 2]\<rparr>\<rparr>],
            Some (ErrOther ''rejected''), [Seen ''Update'' []])
   \<and> RegularStateMachine_Close (NewRegularStateMachine demo_regular) []
     = Inr (Some (ErrOther ''close failed''), [Seen ''Close'' []])
   \<and> ConcurrentStateMachine_GetHash
       (NewConcurrentStateMachine (demo_concurrent\<lparr>csm_IHash := Some demo_hash\<rparr>)) []
     = Inr (42, Some (ErrOther ''hash failed''), [Seen ''GetHash'' []])
   \<and> ConcurrentStateMachine_Recover
       (NewConcurrentStateMachine (demo_concurrent\<lparr>csm_IHash := Some demo_hash\<rparr>)) 4 [8, 9] 0 []
     = Inr (Some (ErrOther ''bad snapshot''), [Seen ''RecoverFromSnapshot'' [4, 8, 9, 0]])
   \<and> OnDiskStateMachine_Lookup (NewOnDiskStateMachine demo_disk\<lparr>opened := True\<rparr>) (Dyn 2)
       [Seen ''Open'' [0]]
     = Inr (Dyn 2, Some (ErrOther ''no such key''), [Seen ''Open'' [0], Seen ''Lookup'' []])
   \<and> OnDiskStateMachine_Save (NewOnDiskStateMachine demo_disk\<lparr>opened := True\<rparr>) nil 1 5 0
       [Seen ''Open'' [0]]
     = Inr (Some (ErrOther ''disk full''), [Seen ''Open'' [0], Seen ''SaveSnapshot'' [1, 0]])"
  using errors_verbatim [where rw = demo_regular
      and cw = "demo_concurrent\<lparr>csm_IHash := Some demo_hash\<rparr>" and ch = demo_hash
      and dw = demo_disk and cs = "[Call_Open 0]" and ?m0.0 = "[]"
      and s = "NewOnDiskStateMachine demo_disk\<lparr>opened := True\<rparr>" and dm = "[Seen ''Open'' [0]]"
      and e = "\<lparr>Index = 1, Cmd = [1, 2], Result = \<lparr>Value = 0, Data = []\<rparr>\<rparr>"
      and rm = "[]" and cm = "[]" and q = "Dyn 2" and ctx = nil and w = 1 and fc = 5 and stop = 0
      and r = 4 and fs = "[8, 9]"]
    demo_run_Open
  by (simp add: demo_regular_def demo_concurrent_def demo_disk_def demo_hash_def)

text \<open>
  Claim C8. \<open>Type\<close>, \<open>Concurrent\<close> and \<open>OnDisk\<close> depend on the variant alone, not on any
  field of the adapter or on the world: \<open>Type\<close> is the variant's discriminant, \<open>OnDisk\<close>
  implies \<open>Concurrent\<close>, calling them changes neither the adapter nor the world, and the
  answers of an on-disk adapter are the same after any calls made on it.
\<close>

theorem variant_queries:
  "IStateMachine_Type a
     = (case a of AsRegular x \<Rightarrow> pb_RegularStateMachine
        | AsConcurrent x \<Rightarrow> pb_ConcurrentStateMachine
        | AsOnDisk x \<Rightarrow> pb_OnDiskStateMachine)
   \<and> IStateMachine_Concurrent a
     = (case a of AsRegular x \<Rightarrow> False | AsConcurrent x \<Rightarrow> True | AsOnDisk x \<Rightarrow> True)
   \<and> IStateMachine_OnDisk a
     = (case a of AsRegular x \<Rightarrow> False | AsConcurrent x \<Rightarrow> False | AsOnDisk x \<Rightarrow> True)
   \<and> (IStateMachine_OnDisk a \<longrightarrow> IStateMachine_Concurrent a)
   \<and> OnDiskStateMachine_call Call_Type s m = Inr (s, m)
   \<and> OnDiskStateMachine_call Call_Concurrent s m = Inr (s, m)
   \<and> OnDiskStateMachine_call Call_OnDisk s m = Inr (s, m)
   \<and> (OnDiskStateMachine_run cs s m = Inr (s', m') \<longrightarrow>
        IStateMachine_Type (AsOnDisk s') = IStateMachine_Type (AsOnDisk s)
      \<and> IStateMachine_Concurrent (AsOnDisk s') = IStateMachine_Concurrent (AsOnDisk s)
      \<and> IStateMachine_OnDisk (AsOnDisk s') = IStateMachine_OnDisk (AsOnDisk s))"
  by (cases a)
     (simp_all add: RegularStateMachine_Type_def RegularStateMachine_Concurrent_def
        RegularStateMachine_OnDisk_def ConcurrentStateMachine_Type_def
        ConcurrentStateMachine_Concurrent_def ConcurrentStateMachine_OnDisk_def
        OnDiskStateMachine_Type_def OnDiskStateMachine_Concurrent_def
        OnDiskStateMachine_OnDisk_def)

theorem variant_queries_witness:
  "IStateMachine_OnDisk (AsOnDisk (NewOnDiskStateMachine demo_disk))
   \<and> IStateMachine_Concurrent (AsOnDisk (NewOnDiskStateMachine demo_disk))
   \<and> IStateMachine_Type (AsOnDisk (NewOnDiskStateMachine demo_disk)) = pb_OnDiskStateMachine
   \<and> IStateMachine_Type (AsOnDisk (NewOnDiskStateMachine demo_disk\<lparr>opened := True\<rparr>))
       = pb_OnDiskStateMachine"
  using variant_queries [where a = "AsOnDisk (NewOnDiskStateMachine demo_disk)"
      and cs = "[Call_Open 0]" and s = "NewOnDiskStateMachine demo_disk" and m = "[]"
      and s' = "NewOnDiskStateMachine demo_disk\<lparr>opened := True\<rparr>" and m' = "[Seen ''Open'' [0]]"]
    demo_run_Open
  by simp

text \<open>
  Claim C10. Before any \<open>Open\<close> (the flag \<open>opened\<close> is still false), \<open>NALookup\<close>,
  \<open>GetHash\<close> and \<open>Close\<close> of the on-disk adapter do not panic: \<open>NALookup\<close> and
  \<open>GetHash\<close> return \<open>ErrNotImplemented\<close> or what the wrapped machine's method returns,
  and \<open>Close\<close> returns what the wrapped machine's \<open>Close\<close> returns.
\<close>

theorem OnDisk_ungated:
  assumes "OnDiskStateMachine_run cs (NewOnDiskStateMachine d) m0 = Inr (s, m)"
    and "\<not> list_ex is_Open cs"
  shows "\<not> opened s
       \<and> OnDiskStateMachine_NALookup s q m
           = (case od_IExtended d of
                None \<Rightarrow> Inr ([], Some ErrNotImplemented, m) | Some na \<Rightarrow> Inr (na q m))
       \<and> OnDiskStateMachine_GetHash s m
           = (case od_IHash d of
                None \<Rightarrow> Inr (0, Some ErrNotImplemented, m) | Some h \<Rightarrow> Inr (h m))
       \<and> OnDiskStateMachine_Close s m = Inr (od_Close d m)"
  using run_New [OF assms(1)] assms(2)
  by (simp add: OnDiskStateMachine_NALookup_def OnDiskStateMachine_GetHash_def
      OnDiskStateMachine_Close_def)

theorem OnDisk_ungated_witness:
  "\<not> list_ex is_Open [Call_Close]
   \<and> OnDiskStateMachine_NALookup
       (NewOnDiskStateMachine (demo_disk\<lparr>od_IExtended := Some demo_nalookup\<rparr>)) [1, 2]
       [Seen ''Close'' []]
     = Inr ([2, 1], None, [Seen ''Close'' [], Seen ''NALookup'' []])
   \<and> OnDiskStateMachine_GetHash
       (NewOnDiskStateMachine (demo_disk\<lparr>od_IExtended := Some demo_nalookup\<rparr>)) [Seen ''Close'' []]
     = Inr (0, Some ErrNotImplemented, [Seen ''Close'' []])
   \<and> OnDiskStateMachine_Close
       (NewOnDiskStateMachine (demo_disk\<lparr>od_IExtended := Some demo_nalookup\<rparr>)) [Seen ''Close'' []]
     = Inr (Some (ErrOther ''close failed''), [Seen ''Close'' [], Seen ''Close'' []])"
proof -
  have run: "OnDiskStateMachine_run [Call_Close]
      (NewOnDiskStateMachine (demo_disk\<lparr>od_IExtended := Some demo_nalookup\<rparr>)) []
    = Inr (NewOnDiskStateMachine (demo_disk\<lparr>od_IExtended := Some demo_nalookup\<rparr>),
           [Seen ''Close'' []])"
    by (simp add: OnDiskStateMachine_Close_def New_OnDisk_fields demo_disk_def)
  have no_open: "\<not> list_ex is_Open [Call_Close]"
    by simp
  show ?thesis
    using OnDisk_ungated [OF run no_open, where q = "[1, 2]"] no_open
    by (simp add: demo_disk_def demo_nalookup_def)
qed

section \<open>Range iteration\<close>

text \<open>
  Claim C9. On a store whose iterator yields its pairs in ascending key order and reports
  no error, \<open>IterateValue fk lk inc op\<close> applies \<open>op\<close> in that order to the pairs with
  \<open>fk \<le> key\<close> and \<open>key \<le> lk\<close> (\<open>key < lk\<close> when \<open>inc\<close> is false), stops at the first
  error of \<open>op\<close> (returning it) or the first \<open>false\<close> (returning nil), and returns nil
  when the range is exhausted: it is \<open>visit\<close> on the pairs in range.
\<close>

theorem IterateValue_range:
  assumes "sorted (map fst (db_entries (db r)))" and "db_iter_error (db r) = None"
  shows "IterateValue r fk lk inc opf st
           = Inr (visit opf (filter (\<lambda>(k, v). in_range fk lk inc k) (db_entries (db r))) st)
       \<and> sorted (map fst (filter (\<lambda>(k, v). in_range fk lk inc k) (db_entries (db r))))"
proof -
  let ?P = "\<lambda>k. if inc then k \<le> lk else k < lk"
  let ?xs = "db_entries (db r)"
  let ?it = "Iterator_SeekGE fk (NewIter (db r))"
  have it: "fault ?it = None" "remaining ?it = dropWhile (\<lambda>(k, v). k < fk) ?xs"
    using assms(2) by (simp_all add: Iterator_SeekGE_def NewIter_def)
  have "IterateValue r fk lk inc opf st
      = Inr (visit opf (takeWhile (\<lambda>(k, v). ?P k) (remaining ?it)) st)"
    unfolding IterateValue_def Let_def
    by (rule loop_takeWhile [OF it(1)]) (rule bytes_Compare_bound)
  also have "remaining ?it = filter (\<lambda>(k, v). fk \<le> k) ?xs"
    using assms(1) by (simp add: it(2) dropWhile_sorted_filter)
  also have "takeWhile (\<lambda>(k, v). ?P k) (filter (\<lambda>(k, v). fk \<le> k) ?xs)
      = filter (\<lambda>(k, v). ?P k) (filter (\<lambda>(k, v). fk \<le> k) ?xs)"
    by (rule takeWhile_sorted_filter) (use assms(1) in \<open>auto simp: sorted_filter\<close>)
  also have "\<dots> = filter (\<lambda>(k, v). in_range fk lk inc k) ?xs"
    by (auto simp: in_range_def intro!: filter_cong)
  finally have main: "IterateValue r fk lk inc opf st
      = Inr (visit opf (filter (\<lambda>(k, v). in_range fk lk inc k) ?xs) st)" .
  show ?thesis
    using main assms(1) by (simp add: sorted_filter)
qed

theorem IterateValue_range_witness:
  "sorted (map fst (db_entries (db demo_kv))) \<and> db_iter_error (db demo_kv) = None
   \<and> IterateValue demo_kv [2] [3] False collect [] = Inr (None, [[2], [2, 0]])
   \<and> IterateValue demo_kv [2] [3] True collect [] = Inr (None, [[2], [2, 0], [3]])"
proof -
  have s: "sorted (map fst (db_entries (db demo_kv)))"
    by (simp add: demo_kv_def)
  have e: "db_iter_error (db demo_kv) = None"
    by (simp add: demo_kv_def)
  show ?thesis
    using s e IterateValue_range [OF s e, where fk = "[2]" and lk = "[3]" and inc = False
        and opf = collect and st = "[]"]
      IterateValue_range [OF s e, where fk = "[2]" and lk = "[3]" and inc = True
        and opf = collect and st = "[]"]
    by (simp add: demo_kv_def in_range_def collect_def)
qed

end
